theory Spec2Isabelle
  imports Complex_Main
begin

section \<open>The tool layer of \<^verbatim>\<open>src/server.ts\<close>\<close>

subsection \<open>Thrown values and tool results\<close>

text \<open>
  A value caught by \<^verbatim>\<open>catch (error)\<close> is either an \<^verbatim>\<open>Error\<close> object built with
  \<^verbatim>\<open>new Error(message)\<close> or any other thrown value, kept by the text that the template
  literal \<^verbatim>\<open>${error}\<close> gives it.
\<close>

datatype thrown = Error string | Other string

text \<open>
  \<^verbatim>\<open>`${error}`\<close>: an \<^verbatim>\<open>Error\<close> object renders as its name \<^verbatim>\<open>Error\<close> when the message is
  empty, and as \<^verbatim>\<open>Error: <message>\<close> otherwise.
\<close>

fun render :: "thrown \<Rightarrow> string" where
  "render (Error message) = (if message = [] then ''Error'' else ''Error: '' @ message)"
| "render (Other s) = s"

text \<open>An awaited call either rejects (\<open>Inl\<close>, the thrown value) or resolves (\<open>Inr\<close>).\<close>

type_synonym 'a outcome = "thrown + 'a"

text \<open>The response body \<^verbatim>\<open>resp.data\<close>, kept by its \<^verbatim>\<open>JSON.stringify\<close> text.\<close>

type_synonym json = string

record TextContent =
  type :: string
  text_str :: string

text \<open>\<^verbatim>\<open>CallToolResult\<close>: \<open>isError\<close> is \<open>None\<close> where the source leaves the field out.\<close>

record CallToolResult =
  content :: "TextContent list"
  isError :: "bool option"

text \<open>\<^verbatim>\<open>{ content: [{ type: "text", text: t }] }\<close>\<close>

definition success :: "string \<Rightarrow> CallToolResult" where
  "success t = \<lparr>content = [\<lparr>type = ''text'', text_str = t\<rparr>], isError = None\<rparr>"

text \<open>\<^verbatim>\<open>{ content: [{ type: "text", text: `<prefix>${error}` }], isError: true }\<close>\<close>

definition failure :: "string \<Rightarrow> thrown \<Rightarrow> CallToolResult" where
  "failure prefix error =
     \<lparr>content = [\<lparr>type = ''text'', text_str = prefix @ render error\<rparr>], isError = Some True\<rparr>"

subsection \<open>The collaborators\<close>

text \<open>
  The handlers reach the remote service through \<^verbatim>\<open>getPageContent\<close> (of
  \<^verbatim>\<open>./client/helpers\<close>) and through \<^verbatim>\<open>createPage\<close> and \<^verbatim>\<open>listPages\<close> (of
  \<^verbatim>\<open>./client/sdk.gen\<close>). Their answers are parameters of the model; every call a handler
  issues is recorded, in order, next to its result.
\<close>

text \<open>The body of the \<^verbatim>\<open>createPage\<close> request as \<^verbatim>\<open>coda_duplicate_page\<close> builds it.\<close>

record CreatePageRequest =
  cp_docId :: string
  cp_name :: string
  cp_contentType :: string
  cp_format :: string
  cp_content :: "string option"

record ListPagesRequest =
  lp_docId :: string
  lp_limit :: "int option"
  lp_pageToken :: "string option"

datatype call =
    GetPageContent string string
  | CreatePage CreatePageRequest
  | ListPages ListPagesRequest

record env =
  getPageContent :: "string \<Rightarrow> string \<Rightarrow> string option outcome"
  createPage :: "CreatePageRequest \<Rightarrow> json outcome"
  listPages :: "ListPagesRequest \<Rightarrow> json outcome"

subsection \<open>\<^verbatim>\<open>try { ... } catch (error) { ... }\<close>\<close>

text \<open>
  Every handler is one \<^verbatim>\<open>try\<close> block with one \<^verbatim>\<open>catch\<close>. The block is modelled by what
  it returns or throws, together with the calls it issued; the \<^verbatim>\<open>catch\<close> turns a thrown
  value into the failure result with the handler's prefix.
\<close>

type_synonym run = "CallToolResult outcome \<times> call list"

definition try_catch :: "string \<Rightarrow> run \<Rightarrow> CallToolResult \<times> call list" where
  "try_catch prefix block =
     (case fst block of Inr result \<Rightarrow> result | Inl error \<Rightarrow> failure prefix error, snd block)"

subsection \<open>\<^verbatim>\<open>coda_get_page_content\<close>\<close>

text \<open>
  \<^verbatim>\<open>content === undefined\<close> holds for the absent content only; the empty string passes the
  check.
\<close>

definition get_page_content_body :: "env \<Rightarrow> string \<Rightarrow> string \<Rightarrow> run" where
  "get_page_content_body e docId pageIdOrName =
     (case getPageContent e docId pageIdOrName of
        Inl error \<Rightarrow> Inl error
      | Inr None \<Rightarrow> Inl (Error ''Unknown error has occurred'')
      | Inr (Some c) \<Rightarrow> Inr (success c),
      [GetPageContent docId pageIdOrName])"

definition coda_get_page_content :: "env \<Rightarrow> string \<Rightarrow> string \<Rightarrow> CallToolResult \<times> call list" where
  "coda_get_page_content e docId pageIdOrName =
     try_catch ''Failed to get page content: '' (get_page_content_body e docId pageIdOrName)"

subsection \<open>\<^verbatim>\<open>coda_peek_page\<close>\<close>

definition LF :: char where "LF = CHR 0x0A"
definition CR :: char where "CR = CHR 0x0D"

text \<open>Puts a character in front of the first piece of a split.\<close>

fun cons_first :: "char \<Rightarrow> string list \<Rightarrow> string list" where
  "cons_first c [] = [[c]]"
| "cons_first c (l # ls) = (c # l) # ls"

text \<open>
  \<^verbatim>\<open>content.split(/\r?\n/)\<close>: scanning from the left, a line feed ends the current piece,
  and so does a carriage return that a line feed follows (both characters are consumed);
  any other character, a lone carriage return included, stays in the piece.
\<close>

fun split_lines :: "string \<Rightarrow> string list" where
  "split_lines [] = [[]]"
| "split_lines [c] = (if c = LF then [[], []] else [[c]])"
| "split_lines (c # d # ds) =
     (if c = LF then [] # split_lines (d # ds)
      else if c = CR \<and> d = LF then [] # split_lines ds
      else cons_first c (split_lines (d # ds)))"

text \<open>\<^verbatim>\<open>lines.join("\n")\<close>\<close>

fun join_lines :: "string list \<Rightarrow> string" where
  "join_lines [] = []"
| "join_lines [l] = l"
| "join_lines (l # m # ls) = l @ LF # join_lines (m # ls)"

text \<open>
  \<^verbatim>\<open>lines.slice(0, numLines)\<close> for the integer \<^verbatim>\<open>numLines\<close>: a negative end counts from
  the end of the array.
\<close>

definition slice0 :: "int \<Rightarrow> 'a list \<Rightarrow> 'a list" where
  "slice0 n xs = (if n < 0 then take (nat (int (length xs) + n)) xs else take (nat n) xs)"

text \<open>
  \<^verbatim>\<open>!content\<close> holds for the absent content and for the empty string: both throw.
\<close>

definition peek_page_body :: "env \<Rightarrow> string \<Rightarrow> string \<Rightarrow> int \<Rightarrow> run" where
  "peek_page_body e docId pageIdOrName numLines =
     (case getPageContent e docId pageIdOrName of
        Inl error \<Rightarrow> Inl error
      | Inr None \<Rightarrow> Inl (Error ''Unknown error has occurred'')
      | Inr (Some c) \<Rightarrow>
          if c = [] then Inl (Error ''Unknown error has occurred'')
          else Inr (success (join_lines (slice0 numLines (split_lines c)))),
      [GetPageContent docId pageIdOrName])"

definition coda_peek_page :: "env \<Rightarrow> string \<Rightarrow> string \<Rightarrow> int \<Rightarrow> CallToolResult \<times> call list" where
  "coda_peek_page e docId pageIdOrName numLines =
     try_catch ''Failed to peek page: '' (peek_page_body e docId pageIdOrName numLines)"

text \<open>
  The argument schema of the tool, \<^verbatim>\<open>numLines: z.number().int().positive()\<close>: the server
  validates the arguments before it runs the handler, and answers an argument that fails
  the schema with an invalid-parameters error, without running the handler.
\<close>

datatype rejection = InvalidParams

definition numLines_schema :: "int \<Rightarrow> bool" where
  "numLines_schema numLines = (0 < numLines)"

definition peek :: "env \<Rightarrow> string \<Rightarrow> string \<Rightarrow> int \<Rightarrow> rejection + CallToolResult \<times> call list" where
  "peek e docId pageIdOrName numLines =
     (if numLines_schema numLines then Inr (coda_peek_page e docId pageIdOrName numLines)
      else Inl InvalidParams)"

subsection \<open>\<^verbatim>\<open>coda_duplicate_page\<close>\<close>

text \<open>
  The content read from the page goes into the request as it is, absent when
  \<^verbatim>\<open>getPageContent\<close> resolved to \<^verbatim>\<open>undefined\<close>. A rejection of \<^verbatim>\<open>getPageContent\<close> leaves
  the \<^verbatim>\<open>try\<close> block before \<^verbatim>\<open>createPage\<close> is reached.
\<close>

definition duplicate_request :: "string \<Rightarrow> string \<Rightarrow> string option \<Rightarrow> CreatePageRequest" where
  "duplicate_request docId newName pageContent =
     \<lparr>cp_docId = docId, cp_name = newName, cp_contentType = ''canvas'',
      cp_format = ''markdown'', cp_content = pageContent\<rparr>"

definition duplicate_page_body :: "env \<Rightarrow> string \<Rightarrow> string \<Rightarrow> string \<Rightarrow> run" where
  "duplicate_page_body e docId pageIdOrName newName =
     (case getPageContent e docId pageIdOrName of
        Inl error \<Rightarrow> (Inl error, [GetPageContent docId pageIdOrName])
      | Inr pageContent \<Rightarrow>
          (let request = duplicate_request docId newName pageContent in
           (case createPage e request of
              Inl error \<Rightarrow> Inl error
            | Inr data \<Rightarrow> Inr (success data),
            [GetPageContent docId pageIdOrName, CreatePage request])))"

definition coda_duplicate_page ::
  "env \<Rightarrow> string \<Rightarrow> string \<Rightarrow> string \<Rightarrow> CallToolResult \<times> call list" where
  "coda_duplicate_page e docId pageIdOrName newName =
     try_catch ''Failed to duplicate page: '' (duplicate_page_body e docId pageIdOrName newName)"

subsection \<open>\<^verbatim>\<open>coda_list_pages\<close>\<close>

text \<open>
  \<^verbatim>\<open>nextPageToken ? undefined : limit\<close>: the token counts when it is truthy, that is
  present and not the empty string. \<^verbatim>\<open>nextPageToken ?? undefined\<close> is the token as given.
\<close>

definition listLimit :: "int option \<Rightarrow> string option \<Rightarrow> int option" where
  "listLimit limit nextPageToken =
     (case nextPageToken of
        None \<Rightarrow> limit
      | Some t \<Rightarrow> if t \<noteq> [] then None else limit)"

definition list_pages_body :: "env \<Rightarrow> string \<Rightarrow> int option \<Rightarrow> string option \<Rightarrow> run" where
  "list_pages_body e docId limit nextPageToken =
     (let request = \<lparr>lp_docId = docId, lp_limit = listLimit limit nextPageToken,
                     lp_pageToken = nextPageToken\<rparr> in
      (case listPages e request of
         Inl error \<Rightarrow> Inl error
       | Inr data \<Rightarrow> Inr (success data),
       [ListPages request]))"

definition coda_list_pages ::
  "env \<Rightarrow> string \<Rightarrow> int option \<Rightarrow> string option \<Rightarrow> CallToolResult \<times> call list" where
  "coda_list_pages e docId limit nextPageToken =
     try_catch ''Failed to list pages: '' (list_pages_body e docId limit nextPageToken)"

subsection \<open>Reading the results\<close>

text \<open>
  The content with every carriage return and line feed pair replaced by a line feed: what
  splitting into lines and joining them again gives.
\<close>

fun crlf_to_lf :: "string \<Rightarrow> string" where
  "crlf_to_lf (c # d # ds) =
     (if c = CR \<and> d = LF then LF # crlf_to_lf ds else c # crlf_to_lf (d # ds))"
| "crlf_to_lf cs = cs"

text \<open>An environment whose collaborators answer every request the same way.\<close>

definition env_of :: "string option outcome \<Rightarrow> json outcome \<Rightarrow> json outcome \<Rightarrow> env" where
  "env_of got created listed =
     \<lparr>getPageContent = (\<lambda>docId pageIdOrName. got), createPage = (\<lambda>request. created),
      listPages = (\<lambda>request. listed)\<rparr>"

section \<open>The export poller\<close>

text \<open>
  \<^verbatim>\<open>getPageContent\<close> lives in \<^verbatim>\<open>./client/helpers\<close>, which is not among the sources: the
  poller is modelled from sections 3 and 4.2 of the specification.
\<close>

text \<open>Modelled from the spec: the status of an export job (section 3; the helper module
  \<^verbatim>\<open>./client/helpers\<close> is missing).\<close>

datatype JobStatus = Pending | InProgress | Complete | Failed

text \<open>Modelled from the spec: the terminal states, Complete and Failed (glossary; the helper
  module is missing).\<close>

fun terminal :: "JobStatus \<Rightarrow> bool" where
  "terminal Complete = True"
| "terminal Failed = True"
| "terminal Pending = False"
| "terminal InProgress = False"

text \<open>Modelled from the spec: the ExportJob of section 3 (the helper module is missing); the
  page reference is the document id with the page id or name.\<close>

record ExportJob =
  jobId :: string
  pageRef :: "string \<times> string"
  status :: JobStatus
  contentLocator :: "string option"
  failureReason :: "string option"

text \<open>Modelled from the spec: the PollPolicy of section 3 (the helper module is missing);
  delays and the timeout are lengths of time.\<close>

record PollPolicy =
  maxAttempts :: nat
  initialDelay :: rat
  backoffMultiplier :: rat
  maxDelay :: rat
  overallTimeout :: rat

text \<open>Modelled from the spec: the answer of \<^verbatim>\<open>getExportStatus(jobId)\<close> of section 6,
  \<^verbatim>\<open>{status, contentLocator?, failureReason?}\<close> (the helper module is missing).\<close>

record StatusReply =
  reply_status :: JobStatus
  reply_contentLocator :: "string option"
  reply_failureReason :: "string option"

text \<open>Modelled from the spec: a status query answers, or fails transiently (section 4.2; the
  helper module is missing).\<close>

datatype query_result = QueryFailed | Answered StatusReply

text \<open>Modelled from the spec: the remote service as the poller sees it (the helper module is
  missing): the answer to the query of each attempt, and the time that query takes.\<close>

record remote =
  getExportStatus :: "string \<Rightarrow> nat \<Rightarrow> query_result"
  latency :: "nat \<Rightarrow> rat"

text \<open>Modelled from the spec: the failure of the poller (section 7; the helper module is
  missing): PollTimeout carries the last known status of the job.\<close>

datatype poll_error = PollTimeout JobStatus

text \<open>Modelled from the spec: what a poll run does, in order (the helper module is
  missing): the query of an attempt with its answer, and a suspension with its length.\<close>

datatype event = Queried nat query_result | Suspended rat

text \<open>Modelled from the spec: the job after a status answer (section 4.2; the helper module
  is missing). Complete without a content locator is treated as Failed with reason
  "missing content locator".\<close>

definition observe :: "ExportJob \<Rightarrow> StatusReply \<Rightarrow> ExportJob" where
  "observe job reply =
     (if reply_status reply = Complete \<and> reply_contentLocator reply = None
      then job\<lparr>status := Failed, contentLocator := None,
               failureReason := Some ''missing content locator''\<rparr>
      else job\<lparr>status := reply_status reply, contentLocator := reply_contentLocator reply,
               failureReason := reply_failureReason reply\<rparr>)"

text \<open>Modelled from the spec: the job after the query of one attempt (section 4.2; the helper
  module is missing). A query that fails transiently is a non-terminal result for that
  attempt: the job stays as it was known.\<close>

definition after_query :: "ExportJob \<Rightarrow> query_result \<Rightarrow> ExportJob" where
  "after_query job answer =
     (case answer of QueryFailed \<Rightarrow> job | Answered reply \<Rightarrow> observe job reply)"

text \<open>Modelled from the spec: the backoff step of section 4.2,
  \<^verbatim>\<open>delay = min(delay * backoffMultiplier, maxDelay)\<close> (the helper module is missing).\<close>

definition next_delay :: "PollPolicy \<Rightarrow> rat \<Rightarrow> rat" where
  "next_delay policy delay = min (delay * backoffMultiplier policy) (maxDelay policy)"


text \<open>Modelled from the spec: the polling loop of section 4.2 (the helper module is missing).
  Each attempt queries the status. A terminal status returns the job at once. Otherwise,
  while attempts remain and the elapsed time is under \<^verbatim>\<open>overallTimeout\<close>, the poller
  suspends for \<^verbatim>\<open>delay\<close>, steps the delay, increments the attempt and retries; when the
  attempts are exhausted or the timeout has elapsed it fails with PollTimeout and the last
  known status. A query that fails transiently counts as a non-terminal attempt.\<close>

function poll_loop ::
  "PollPolicy \<Rightarrow> remote \<Rightarrow> ExportJob \<Rightarrow> nat \<Rightarrow> rat \<Rightarrow> rat \<Rightarrow> (poll_error + ExportJob) \<times> event list"
  where
  "poll_loop policy r job attempt delay elapsed =
     (let answer = getExportStatus r (jobId job) attempt;
          now = elapsed + latency r attempt;
          job' = after_query job answer
      in if terminal (status job') then (Inr job', [Queried attempt answer])
         else if attempt + 1 < maxAttempts policy \<and> now < overallTimeout policy
         then apsnd (\<lambda>evs. Queried attempt answer # Suspended delay # evs)
                (poll_loop policy r job' (attempt + 1) (next_delay policy delay) (now + delay))
         else (Inl (PollTimeout (status job')), [Queried attempt answer]))"
  by pat_completeness auto
termination
  by (relation "measure (\<lambda>(policy, r, job, attempt, delay, elapsed). maxAttempts policy - attempt)")
     auto

text \<open>Modelled from the spec: \<^verbatim>\<open>awaitCompletion(job, policy)\<close> of section 4.2 (the helper
  module is missing). The attempt counter starts at 0 and the delay at \<^verbatim>\<open>initialDelay\<close>. A
  job is contacted only while non-terminal (section 3): a job that is terminal already is
  returned without a query.\<close>

definition awaitCompletion ::
  "PollPolicy \<Rightarrow> remote \<Rightarrow> ExportJob \<Rightarrow> (poll_error + ExportJob) \<times> event list" where
  "awaitCompletion policy r job =
     (if terminal (status job) then (Inr job, [])
      else poll_loop policy r job 0 (initialDelay policy) 0)"

text \<open>The job as known after the events of a run.\<close>

fun known :: "ExportJob \<Rightarrow> event list \<Rightarrow> ExportJob" where
  "known job [] = job"
| "known job (Queried k answer # evs) = known (after_query job answer) evs"
| "known job (Suspended d # evs) = known job evs"

text \<open>The number of status queries among the events of a run.\<close>

fun queries :: "event list \<Rightarrow> nat" where
  "queries [] = 0"
| "queries (Queried k answer # evs) = Suc (queries evs)"
| "queries (Suspended d # evs) = queries evs"

text \<open>The time the events of a run take: each query its latency, each suspension its
  length.\<close>

fun duration :: "remote \<Rightarrow> event list \<Rightarrow> rat" where
  "duration r [] = 0"
| "duration r (Queried k answer # evs) = latency r k + duration r evs"
| "duration r (Suspended d # evs) = d + duration r evs"


text \<open>
  The queries of a run were all issued on a non-terminal job: walking the events with the
  job as known so far, every query finds that job non-terminal.
\<close>

fun queried_while_open :: "ExportJob \<Rightarrow> event list \<Rightarrow> bool" where
  "queried_while_open job [] = True"
| "queried_while_open job (Queried k answer # evs) =
     (\<not> terminal (status job) \<and> queried_while_open (after_query job answer) evs)"
| "queried_while_open job (Suspended d # evs) = queried_while_open job evs"


subsection \<open>Example policies, services and jobs\<close>

text \<open>The policy of the backoff example, with the attempts and the timeout left open.\<close>

definition backoff_example :: "nat \<Rightarrow> rat \<Rightarrow> PollPolicy" where
  "backoff_example n t =
     \<lparr>maxAttempts = n, initialDelay = 100, backoffMultiplier = 2, maxDelay = 1000,
      overallTimeout = t\<rparr>"

text \<open>A status answer with no failure reason.\<close>

definition answered :: "JobStatus \<Rightarrow> string option \<Rightarrow> query_result" where
  "answered st locator =
     Answered \<lparr>reply_status = st, reply_contentLocator = locator, reply_failureReason = None\<rparr>"

text \<open>
  A remote service that answers the queries of a run from a script, one answer for each
  attempt; past the end of the script the query fails. Each query takes one unit of time.
\<close>

definition remote_of :: "query_result list \<Rightarrow> remote" where
  "remote_of answers =
     \<lparr>getExportStatus =
        (\<lambda>job attempt. if attempt < length answers then answers ! attempt else QueryFailed),
      latency = (\<lambda>attempt. 1)\<rparr>"

text \<open>A job as the requester hands it over: pending, with no locator and no reason.\<close>

definition submitted :: ExportJob where
  "submitted =
     \<lparr>jobId = ''j1'', pageRef = (''doc'', ''page''), status = Pending, contentLocator = None,
      failureReason = None\<rparr>"

section \<open>Properties of the tool layer\<close>

subsection \<open>Splitting into lines\<close>

lemma cons_first_nonempty: "cons_first c ls \<noteq> []"
  by (cases ls) auto

lemma split_lines_nonempty: "split_lines cs \<noteq> []"
  by (induction cs rule: split_lines.induct) (auto simp: cons_first_nonempty)

lemma join_lines_Nil_Cons: "ls \<noteq> [] \<Longrightarrow> join_lines ([] # ls) = LF # join_lines ls"
  by (cases ls) auto

lemma join_lines_cons_first: "ls \<noteq> [] \<Longrightarrow> join_lines (cons_first c ls) = c # join_lines ls"
  by (cases ls rule: join_lines.cases) auto

lemma CR_neq_LF: "CR \<noteq> LF"
  by (simp add: CR_def LF_def)

text \<open>Joining the lines again gives the content back, up to the line endings.\<close>

lemma join_split_lines: "join_lines (split_lines cs) = crlf_to_lf cs"
  by (induction cs rule: split_lines.induct)
     (auto simp: join_lines_Nil_Cons join_lines_cons_first split_lines_nonempty CR_neq_LF)

lemma crlf_to_lf_id: "CR \<notin> set cs \<Longrightarrow> crlf_to_lf cs = cs"
  by (induction cs rule: crlf_to_lf.induct) auto

lemma length_cons_first: "ls \<noteq> [] \<Longrightarrow> length (cons_first c ls) = length ls"
  by (cases ls) auto

text \<open>Every line feed, alone or after a carriage return, separates two lines.\<close>

lemma length_split_lines: "length (split_lines cs) = Suc (count_list cs LF)"
  by (induction cs rule: split_lines.induct)
     (auto simp: length_cons_first split_lines_nonempty CR_neq_LF)

lemma set_cons_first:
  "l \<in> set (cons_first c ls) \<Longrightarrow> ls \<noteq> [] \<Longrightarrow> l \<in> set ls \<or> (\<exists>m. l = c # m \<and> m \<in> set ls)"
  by (cases ls) auto

lemma split_lines_no_LF: "l \<in> set (split_lines cs) \<Longrightarrow> LF \<notin> set l"
  by (induction cs arbitrary: l rule: split_lines.induct)
     (auto simp: split_lines_nonempty dest!: set_cons_first split: if_splits)

lemma slice0_pos: "0 \<le> n \<Longrightarrow> slice0 n xs = take (nat n) xs"
  by (simp add: slice0_def)

subsection \<open>Getting the content of a page\<close>

text \<open>
  C1, as the code has it: when the content retrieval resolves to an absent content,
  \<^verbatim>\<open>coda_get_page_content\<close> answers with the result flagged as an error whose text is
  "Failed to get page content: Error: Unknown error has occurred"; a content that is
  present, the empty string of an empty page included, is returned as the result with that
  text and no error flag; a failure of the retrieval is answered with the result flagged as
  an error whose text is "Failed to get page content: " followed by the thrown value: for an
  \<^verbatim>\<open>Error\<close> object "Error" when its message is empty and "Error: " with the message
  otherwise.
\<close>

theorem get_page_content_results:
  "(getPageContent e docId page = Inr None \<longrightarrow>
      fst (coda_get_page_content e docId page)
        = \<lparr>content = [\<lparr>type = ''text'', text_str = ''Failed to get page content: Error: Unknown error has occurred''\<rparr>],
          isError = Some True\<rparr>)
   \<and> (getPageContent e docId page = Inr (Some c) \<longrightarrow>
      fst (coda_get_page_content e docId page)
        = \<lparr>content = [\<lparr>type = ''text'', text_str = c\<rparr>], isError = None\<rparr>)
   \<and> (getPageContent e docId page = Inl error \<longrightarrow>
      fst (coda_get_page_content e docId page)
        = \<lparr>content = [\<lparr>type = ''text'',
            text_str = ''Failed to get page content: '' @
              (case error of Error m \<Rightarrow> if m = [] then ''Error'' else ''Error: '' @ m | Other s \<Rightarrow> s)\<rparr>],
          isError = Some True\<rparr>)"
  by (cases error)
     (simp_all add: coda_get_page_content_def get_page_content_body_def try_catch_def
        failure_def success_def)

text \<open>
  The cases at concrete environments: absent, empty, and a retrieval that fails with an
  \<^verbatim>\<open>Error\<close> object with a message, with one without, and with another value.
\<close>

theorem get_page_content_results_witness:
  "map text_str (content (fst (coda_get_page_content (env_of (Inr None) (Inr []) (Inr []))
       ''doc'' ''page'')))
     = [''Failed to get page content: Error: Unknown error has occurred'']
   \<and> fst (coda_get_page_content (env_of (Inr (Some [])) (Inr []) (Inr [])) ''doc'' ''page'')
     = \<lparr>content = [\<lparr>type = ''text'', text_str = []\<rparr>], isError = None\<rparr>
   \<and> map text_str (content (fst (coda_get_page_content
       (env_of (Inl (Error ''NotFound'')) (Inr []) (Inr [])) ''doc'' ''page'')))
     = [''Failed to get page content: Error: NotFound'']
   \<and> map text_str (content (fst (coda_get_page_content
       (env_of (Inl (Error [])) (Inr []) (Inr [])) ''doc'' ''page'')))
     = [''Failed to get page content: Error'']
   \<and> map text_str (content (fst (coda_get_page_content
       (env_of (Inl (Other ''503'')) (Inr []) (Inr [])) ''doc'' ''page'')))
     = [''Failed to get page content: 503'']"
  using get_page_content_results [of "env_of (Inr None) (Inr []) (Inr [])" "''doc''" "''page''"]
    get_page_content_results [of "env_of (Inr (Some [])) (Inr []) (Inr [])" "''doc''" "''page''" "[]"]
    get_page_content_results [of "env_of (Inl (Error ''NotFound'')) (Inr []) (Inr [])" "''doc''"
      "''page''" _ "Error ''NotFound''"]
    get_page_content_results [of "env_of (Inl (Error [])) (Inr []) (Inr [])" "''doc''"
      "''page''" _ "Error []"]
    get_page_content_results [of "env_of (Inl (Other ''503'')) (Inr []) (Inr [])" "''doc''"
      "''page''" _ "Other ''503''"]
  by (simp add: env_of_def)

text \<open>
  C1 as stated fails: with an absent content the handler does not answer with a success,
  its result is flagged as an error.
\<close>

theorem get_page_content_absent_counterexample:
  "getPageContent (env_of (Inr None) (Inr []) (Inr [])) ''doc'' ''page'' = Inr None
   \<and> isError (fst (coda_get_page_content (env_of (Inr None) (Inr []) (Inr [])) ''doc'' ''page''))
       = Some True
   \<and> map text_str (content (fst (coda_get_page_content (env_of (Inr None) (Inr []) (Inr []))
         ''doc'' ''page'')))
       = [''Failed to get page content: Error: Unknown error has occurred'']"
  by (simp add: coda_get_page_content_def get_page_content_body_def try_catch_def env_of_def
        failure_def)

subsection \<open>Peeking into a page\<close>

text \<open>
  C2, as the code has it: for a content that is not empty and a positive \<open>n\<close>, the tool
  returns the first \<open>min n totalLines\<close> lines of the content joined with line feeds, where
  the lines are separated by a line feed or by a carriage return and line feed pair (so
  \<open>totalLines\<close> is one more than the number of line feeds); when the page has no more
  than \<open>n\<close> lines this is the whole content with every pair replaced by a line feed, the
  content itself when it has no carriage return. An \<open>n\<close> that is not positive is rejected
  as an invalid argument.
\<close>

theorem peek_first_lines:
  "(getPageContent e docId page = Inr (Some c) \<and> c \<noteq> [] \<and> 0 < n \<longrightarrow>
      peek e docId page n =
        Inr (success (join_lines (take (nat n) (split_lines c))), [GetPageContent docId page])
      \<and> length (take (nat n) (split_lines c)) = min (nat n) (length (split_lines c))
      \<and> (length (split_lines c) \<le> nat n \<longrightarrow>
           join_lines (take (nat n) (split_lines c)) = crlf_to_lf c))
   \<and> length (split_lines c) = Suc (count_list c LF)
   \<and> (CR \<notin> set c \<longrightarrow> crlf_to_lf c = c)
   \<and> (n \<le> 0 \<longrightarrow> peek e docId page n = Inl InvalidParams)"
  by (auto simp: peek_def numLines_schema_def coda_peek_page_def peek_page_body_def try_catch_def
        slice0_pos join_split_lines length_split_lines crlf_to_lf_id)

text \<open>The first two of three lines, and the rejection of \<open>numLines = 0\<close>.\<close>

theorem peek_first_lines_witness:
  "peek (env_of (Inr (Some (''a'' @ [LF] @ ''b'' @ [LF] @ ''c''))) (Inr []) (Inr [])) ''doc'' ''page'' 2
     = Inr (success (''a'' @ [LF] @ ''b''), [GetPageContent ''doc'' ''page''])
   \<and> peek (env_of (Inr (Some (''a'' @ [LF] @ ''b'' @ [LF] @ ''c''))) (Inr []) (Inr [])) ''doc'' ''page'' 0
     = Inl InvalidParams"
  using peek_first_lines [of "env_of (Inr (Some (''a'' @ [LF] @ ''b'' @ [LF] @ ''c''))) (Inr []) (Inr [])"
      "''doc''" "''page''" "''a'' @ [LF] @ ''b'' @ [LF] @ ''c''" 2]
    peek_first_lines [of "env_of (Inr (Some (''a'' @ [LF] @ ''b'' @ [LF] @ ''c''))) (Inr []) (Inr [])"
      "''doc''" "''page''" "''a'' @ [LF] @ ''b'' @ [LF] @ ''c''" 0]
  by (simp add: env_of_def LF_def CR_def)

text \<open>
  C2 as stated fails for the empty content, where one line is asked for and an error is
  returned, and for a content with a carriage return and line feed pair, where all lines
  are returned and the text differs from the content.
\<close>

theorem peek_counterexample:
  "peek (env_of (Inr (Some [])) (Inr []) (Inr [])) ''doc'' ''page'' 1
     = Inr (failure ''Failed to peek page: '' (Error ''Unknown error has occurred''),
            [GetPageContent ''doc'' ''page''])
   \<and> peek (env_of (Inr (Some (''a'' @ [CR, LF] @ ''b''))) (Inr []) (Inr [])) ''doc'' ''page'' 10
     = Inr (success (''a'' @ [LF] @ ''b''), [GetPageContent ''doc'' ''page''])
   \<and> ''a'' @ [LF] @ ''b'' \<noteq> ''a'' @ [CR, LF] @ ''b''"
  by (simp add: peek_def numLines_schema_def coda_peek_page_def peek_page_body_def try_catch_def
        env_of_def slice0_def CR_def LF_def)

text \<open>
  C9: when the content retrieved for the page is the empty string, \<^verbatim>\<open>coda_peek_page\<close>
  returns the error result with the message "Unknown error has occurred" under the prefix
  "Failed to peek page: ", whatever the number of lines asked for.
\<close>

theorem peek_empty_content_is_error:
  "getPageContent e docId page = Inr (Some []) \<Longrightarrow>
     fst (coda_peek_page e docId page numLines)
       = failure ''Failed to peek page: '' (Error ''Unknown error has occurred'')
     \<and> isError (fst (coda_peek_page e docId page numLines)) = Some True
     \<and> map text_str (content (fst (coda_peek_page e docId page numLines)))
       = [''Failed to peek page: Error: Unknown error has occurred'']"
  by (simp add: coda_peek_page_def peek_page_body_def try_catch_def failure_def)

theorem peek_empty_content_is_error_witness:
  "map text_str (content (fst (coda_peek_page (env_of (Inr (Some [])) (Inr []) (Inr [])) ''doc''
      ''page'' 30)))
     = [''Failed to peek page: Error: Unknown error has occurred'']"
  using peek_empty_content_is_error [of "env_of (Inr (Some [])) (Inr []) (Inr [])" "''doc''"
      "''page''" 30]
  by (simp add: env_of_def failure_def)

subsection \<open>Duplicating a page\<close>

text \<open>
  C3: when the content retrieval fails, \<^verbatim>\<open>coda_duplicate_page\<close> fails with the error of the
  retrieval: its result is flagged as an error and its text is "Failed to duplicate page: "
  followed by the thrown value (for an \<^verbatim>\<open>Error\<close> object "Error" when its message is empty
  and "Error: " with the message otherwise). The only call it has issued is the retrieval:
  no page creation is requested.
\<close>

theorem duplicate_fails_without_create:
  "getPageContent e docId page = Inl error \<Longrightarrow>
     coda_duplicate_page e docId page newName
       = (\<lparr>content = [\<lparr>type = ''text'',
            text_str = ''Failed to duplicate page: '' @
              (case error of Error m \<Rightarrow> if m = [] then ''Error'' else ''Error: '' @ m | Other s \<Rightarrow> s)\<rparr>],
          isError = Some True\<rparr>,
          [GetPageContent docId page])
     \<and> (\<forall>request. CreatePage request \<notin> set (snd (coda_duplicate_page e docId page newName)))"
  by (cases error)
     (simp_all add: coda_duplicate_page_def duplicate_page_body_def try_catch_def failure_def)

text \<open>A retrieval that fails with a transient service error.\<close>

theorem duplicate_fails_without_create_witness:
  "coda_duplicate_page (env_of (Inl (Error ''TransientServiceError'')) (Inr ''{}'') (Inr []))
       ''doc'' ''page'' ''copy''
     = (\<lparr>content = [\<lparr>type = ''text'',
            text_str = ''Failed to duplicate page: Error: TransientServiceError''\<rparr>],
          isError = Some True\<rparr>,
        [GetPageContent ''doc'' ''page''])"
  using duplicate_fails_without_create
    [of "env_of (Inl (Error ''TransientServiceError'')) (Inr ''{}'') (Inr [])" "''doc''" "''page''"
      "Error ''TransientServiceError''" "''copy''"]
  by (simp add: env_of_def)

subsection \<open>Failures as results\<close>

text \<open>
  C8: each of the three handlers answers a failure with a result and never throws: whatever
  its \<^verbatim>\<open>try\<close> block throws comes back as a result that is flagged as an error and whose
  text is the handler's prefix followed by the thrown value (for an \<^verbatim>\<open>Error\<close> object
  "Error" when its message is empty and "Error: " with the message otherwise). So it is for
  a failure of the content retrieval in each of the three, for a failure of the page
  creation in the duplication, and for the error that the two readers throw themselves.
\<close>

theorem failures_are_results:
  "(fst (get_page_content_body e docId page) = Inl error \<longrightarrow>
      fst (coda_get_page_content e docId page)
        = \<lparr>content = [\<lparr>type = ''text'',
            text_str = ''Failed to get page content: '' @
              (case error of Error m \<Rightarrow> if m = [] then ''Error'' else ''Error: '' @ m | Other s \<Rightarrow> s)\<rparr>],
          isError = Some True\<rparr>)
   \<and> (fst (peek_page_body e docId page numLines) = Inl error \<longrightarrow>
      fst (coda_peek_page e docId page numLines)
        = \<lparr>content = [\<lparr>type = ''text'',
            text_str = ''Failed to peek page: '' @
              (case error of Error m \<Rightarrow> if m = [] then ''Error'' else ''Error: '' @ m | Other s \<Rightarrow> s)\<rparr>],
          isError = Some True\<rparr>)
   \<and> (fst (duplicate_page_body e docId page newName) = Inl error \<longrightarrow>
      fst (coda_duplicate_page e docId page newName)
        = \<lparr>content = [\<lparr>type = ''text'',
            text_str = ''Failed to duplicate page: '' @
              (case error of Error m \<Rightarrow> if m = [] then ''Error'' else ''Error: '' @ m | Other s \<Rightarrow> s)\<rparr>],
          isError = Some True\<rparr>)
   \<and> (getPageContent e docId page = Inl error \<longrightarrow>
      fst (get_page_content_body e docId page) = Inl error
      \<and> fst (peek_page_body e docId page numLines) = Inl error
      \<and> fst (duplicate_page_body e docId page newName) = Inl error)
   \<and> (getPageContent e docId page = Inr c
        \<and> createPage e \<lparr>cp_docId = docId, cp_name = newName, cp_contentType = ''canvas'',
              cp_format = ''markdown'', cp_content = c\<rparr> = Inl error \<longrightarrow>
      fst (duplicate_page_body e docId page newName) = Inl error)
   \<and> (getPageContent e docId page = Inr None \<longrightarrow>
      fst (get_page_content_body e docId page) = Inl (Error ''Unknown error has occurred'')
      \<and> fst (peek_page_body e docId page numLines) = Inl (Error ''Unknown error has occurred''))"
  by (cases error)
     (simp_all add: coda_get_page_content_def get_page_content_body_def coda_peek_page_def
        peek_page_body_def coda_duplicate_page_def duplicate_page_body_def duplicate_request_def
        try_catch_def failure_def)

text \<open>
  A retrieval that fails in all three handlers, with and without a message, and a page
  creation that fails.
\<close>

theorem failures_are_results_witness:
  "fst (coda_get_page_content (env_of (Inl (Error ''NotFound'')) (Inr []) (Inr [])) ''doc'' ''page'')
     = \<lparr>content = [\<lparr>type = ''text'', text_str = ''Failed to get page content: Error: NotFound''\<rparr>],
        isError = Some True\<rparr>
   \<and> fst (coda_peek_page (env_of (Inl (Error ''NotFound'')) (Inr []) (Inr [])) ''doc'' ''page'' 30)
     = \<lparr>content = [\<lparr>type = ''text'', text_str = ''Failed to peek page: Error: NotFound''\<rparr>],
        isError = Some True\<rparr>
   \<and> fst (coda_duplicate_page (env_of (Inl (Error [])) (Inr []) (Inr [])) ''doc'' ''page''
       ''copy'')
     = \<lparr>content = [\<lparr>type = ''text'', text_str = ''Failed to duplicate page: Error''\<rparr>],
        isError = Some True\<rparr>
   \<and> fst (coda_duplicate_page (env_of (Inr (Some ''x'')) (Inl (Other ''500'')) (Inr [])) ''doc''
       ''page'' ''copy'')
     = \<lparr>content = [\<lparr>type = ''text'', text_str = ''Failed to duplicate page: 500''\<rparr>],
        isError = Some True\<rparr>"
  using failures_are_results [of "env_of (Inl (Error ''NotFound'')) (Inr []) (Inr [])" "''doc''"
      "''page''" "Error ''NotFound''" 30 "''copy''"]
    failures_are_results [of "env_of (Inl (Error [])) (Inr []) (Inr [])" "''doc''"
      "''page''" "Error []" 30 "''copy''"]
    failures_are_results [of "env_of (Inr (Some ''x'')) (Inl (Other ''500'')) (Inr [])" "''doc''"
      "''page''" "Other ''500''" 30 "''copy''" "Some ''x''"]
  by (simp add: env_of_def)

subsection \<open>Listing pages\<close>

text \<open>
  C10, as the code has it: when a page token that is not the empty string is supplied, the
  remote call is issued with no limit and with the token; when no token is supplied the
  limit of the caller is passed on.
\<close>

theorem list_pages_limit:
  "(t \<noteq> [] \<longrightarrow>
      snd (coda_list_pages e docId limit (Some t))
        = [ListPages \<lparr>lp_docId = docId, lp_limit = None, lp_pageToken = Some t\<rparr>])
   \<and> snd (coda_list_pages e docId limit None)
        = [ListPages \<lparr>lp_docId = docId, lp_limit = limit, lp_pageToken = None\<rparr>]"
  by (simp add: coda_list_pages_def list_pages_body_def try_catch_def listLimit_def Let_def)

theorem list_pages_limit_witness:
  "snd (coda_list_pages (env_of (Inr None) (Inr []) (Inr ''{}'')) ''doc'' (Some 10) (Some ''tok''))
     = [ListPages \<lparr>lp_docId = ''doc'', lp_limit = None, lp_pageToken = Some ''tok''\<rparr>]"
  using list_pages_limit [of "''tok''" "env_of (Inr None) (Inr []) (Inr ''{}'')" "''doc''" "Some 10"]
  by simp

text \<open>
  C10 as stated fails for the empty string as the token: it is supplied, and the limit is
  passed on with it.
\<close>

theorem list_pages_empty_token_counterexample:
  "snd (coda_list_pages (env_of (Inr None) (Inr []) (Inr ''{}'')) ''doc'' (Some 10) (Some []))
     = [ListPages \<lparr>lp_docId = ''doc'', lp_limit = Some 10, lp_pageToken = Some []\<rparr>]"
  by (simp add: coda_list_pages_def list_pages_body_def try_catch_def listLimit_def Let_def)

section \<open>Properties of the export poller\<close>

subsection \<open>One round of the loop\<close>

lemma poll_loop_cases:
  assumes "poll_loop policy r job attempt delay elapsed = (res, evs)"
  obtains
    (final) "terminal (status (after_query job (getExportStatus r (jobId job) attempt)))"
      "res = Inr (after_query job (getExportStatus r (jobId job) attempt))"
      "evs = [Queried attempt (getExportStatus r (jobId job) attempt)]"
  | (timeout) "\<not> terminal (status (after_query job (getExportStatus r (jobId job) attempt)))"
      "maxAttempts policy \<le> attempt + 1 \<or> overallTimeout policy \<le> elapsed + latency r attempt"
      "res = Inl (PollTimeout (status (after_query job (getExportStatus r (jobId job) attempt))))"
      "evs = [Queried attempt (getExportStatus r (jobId job) attempt)]"
  | (retry) evs' where
      "\<not> terminal (status (after_query job (getExportStatus r (jobId job) attempt)))"
      "attempt + 1 < maxAttempts policy" "elapsed + latency r attempt < overallTimeout policy"
      "poll_loop policy r (after_query job (getExportStatus r (jobId job) attempt)) (attempt + 1)
         (next_delay policy delay) (elapsed + latency r attempt + delay) = (res, evs')"
      "evs = Queried attempt (getExportStatus r (jobId job) attempt) # Suspended delay # evs'"
proof (cases "terminal (status (after_query job (getExportStatus r (jobId job) attempt)))")
  case True
  with assms final show ?thesis
    by (simp add: Let_def)
next
  case unfinished: False
  show ?thesis
  proof (cases "attempt + 1 < maxAttempts policy
      \<and> elapsed + latency r attempt < overallTimeout policy")
    case False
    with assms unfinished timeout show ?thesis
      by (auto simp: Let_def not_less)
  next
    case True
    obtain res' evs' where next_run:
      "poll_loop policy r (after_query job (getExportStatus r (jobId job) attempt)) (attempt + 1)
         (next_delay policy delay) (elapsed + latency r attempt + delay) = (res', evs')"
      by (cases "poll_loop policy r (after_query job (getExportStatus r (jobId job) attempt))
         (attempt + 1) (next_delay policy delay) (elapsed + latency r attempt + delay)")
    with assms unfinished True have "res = res'"
      and "evs = Queried attempt (getExportStatus r (jobId job) attempt) # Suspended delay # evs'"
      by (simp_all add: Let_def)
    with unfinished True next_run retry show ?thesis
      by simp
  qed
qed

declare poll_loop.simps [simp del]

lemma after_query_failed [simp]: "after_query job QueryFailed = job"
  by (simp add: after_query_def)

lemma after_query_jobId [simp]: "jobId (after_query job answer) = jobId job"
  by (simp add: after_query_def observe_def split: query_result.splits)

subsection \<open>What a run returns\<close>

lemma poll_loop_returns_known:
  "poll_loop policy r job attempt delay elapsed = (Inr j, evs) \<Longrightarrow>
     j = known job evs \<and> terminal (status j)"
proof (induction policy r job attempt delay elapsed arbitrary: evs rule: poll_loop.induct)
  case (1 policy r job attempt delay elapsed)
  from "1.prems" show ?case
  proof (cases rule: poll_loop_cases)
    case final
    then show ?thesis by simp
  next
    case timeout
    then show ?thesis by simp
  next
    case (retry evs')
    from "1.IH" [OF refl refl refl retry(1) conjI [OF retry(2,3)] retry(4)] retry(5)
    show ?thesis
      by auto
  qed
qed

lemma poll_loop_timeout:
  "poll_loop policy r job attempt delay elapsed = (Inl err, evs) \<Longrightarrow>
     err = PollTimeout (status (known job evs)) \<and> \<not> terminal (status (known job evs))
     \<and> (maxAttempts policy \<le> attempt + queries evs
          \<or> overallTimeout policy \<le> elapsed + duration r evs)"
proof (induction policy r job attempt delay elapsed arbitrary: evs rule: poll_loop.induct)
  case (1 policy r job attempt delay elapsed)
  from "1.prems" show ?case
  proof (cases rule: poll_loop_cases)
    case final
    then show ?thesis by simp
  next
    case timeout
    then show ?thesis by auto
  next
    case (retry evs')
    from "1.IH" [OF refl refl refl retry(1) conjI [OF retry(2,3)] retry(4)] retry(5)
    show ?thesis
      by (auto simp: add.assoc)
  qed
qed



lemma poll_loop_queried_while_open:
  "poll_loop policy r job attempt delay elapsed = (res, evs) \<Longrightarrow> \<not> terminal (status job) \<Longrightarrow>
     queried_while_open job evs"
proof (induction policy r job attempt delay elapsed arbitrary: evs rule: poll_loop.induct)
  case (1 policy r job attempt delay elapsed)
  from "1.prems"(1) show ?case
  proof (cases rule: poll_loop_cases)
    case final
    with "1.prems"(2) show ?thesis by simp
  next
    case timeout
    with "1.prems"(2) show ?thesis by simp
  next
    case (retry evs')
    from "1.IH" [OF refl refl refl retry(1) conjI [OF retry(2,3)] retry(4) retry(1)]
      retry(5) "1.prems"(2)
    show ?thesis
      by simp
  qed
qed



lemma observe_missing_locator:
  "reply_status reply = Complete \<Longrightarrow> reply_contentLocator reply = None \<Longrightarrow>
     observe job reply = job\<lparr>status := Failed, contentLocator := None,
       failureReason := Some ''missing content locator''\<rparr>"
  by (simp add: observe_def)

lemma observe_Complete_has_locator:
  "status (observe job reply) = Complete \<Longrightarrow> contentLocator (observe job reply) \<noteq> None"
  by (auto simp: observe_def split: if_splits)

lemma poll_loop_missing_locator:
  "poll_loop policy r job attempt delay elapsed = (res, evs) \<Longrightarrow>
     Queried k (Answered reply) \<in> set evs \<Longrightarrow>
     reply_status reply = Complete \<Longrightarrow> reply_contentLocator reply = None \<Longrightarrow>
     \<exists>j. res = Inr j \<and> status j = Failed \<and> contentLocator j = None
       \<and> failureReason j = Some ''missing content locator''"
proof (induction policy r job attempt delay elapsed arbitrary: evs rule: poll_loop.induct)
  case (1 policy r job attempt delay elapsed)
  from "1.prems"(1) show ?case
  proof (cases rule: poll_loop_cases)
    case final
    from final(3) "1.prems"(2) have "getExportStatus r (jobId job) attempt = Answered reply"
      by simp
    with final(2) "1.prems"(3,4) show ?thesis
      by (simp add: after_query_def observe_missing_locator)
  next
    case timeout
    from timeout(4) "1.prems"(2) have "getExportStatus r (jobId job) attempt = Answered reply"
      by simp
    with timeout(1) "1.prems"(3,4) show ?thesis
      by (simp add: after_query_def observe_missing_locator)
  next
    case (retry evs')
    have "getExportStatus r (jobId job) attempt \<noteq> Answered reply"
    proof
      assume "getExportStatus r (jobId job) attempt = Answered reply"
      with retry(1) "1.prems"(3,4) show False
        by (simp add: after_query_def observe_missing_locator)
    qed
    with retry(5) "1.prems"(2) have "Queried k (Answered reply) \<in> set evs'"
      by auto
    from "1.IH" [OF refl refl refl retry(1) conjI [OF retry(2,3)] retry(4) this "1.prems"(3,4)]
    show ?thesis .
  qed
qed

lemma poll_loop_Complete_has_locator:
  "poll_loop policy r job attempt delay elapsed = (Inr j, evs) \<Longrightarrow> \<not> terminal (status job) \<Longrightarrow>
     status j = Complete \<Longrightarrow> contentLocator j \<noteq> None"
proof (induction policy r job attempt delay elapsed arbitrary: evs rule: poll_loop.induct)
  case (1 policy r job attempt delay elapsed)
  from "1.prems"(1) show ?case
  proof (cases rule: poll_loop_cases)
    case final
    with "1.prems"(2-) show ?thesis
      by (cases "getExportStatus r (jobId job) attempt")
         (auto simp: after_query_def dest: observe_Complete_has_locator)
  next
    case timeout
    then show ?thesis by simp
  next
    case (retry evs')
    from "1.IH" [OF refl refl refl retry(1) conjI [OF retry(2,3)] retry(4) retry(1) "1.prems"(3)]
    show ?thesis .
  qed
qed


subsection \<open>Backoff\<close>




subsection \<open>The claims about the poller\<close>

lemma terminal_iff: "terminal s \<longleftrightarrow> s = Complete \<or> s = Failed"
  by (cases s) simp_all

text \<open>
  C4: in every run of \<open>awaitCompletion\<close>, a status answer that reports Complete and has no
  content locator makes the run return the job as Failed with the reason
  "missing content locator" and no locator; and a job that a poll returns as Complete
  always has a content locator.
\<close>

theorem missing_locator_is_failed:
  assumes "awaitCompletion policy r job = (res, evs)"
  shows "
     (\<forall>k reply. Queried k (Answered reply) \<in> set evs \<and> reply_status reply = Complete
          \<and> reply_contentLocator reply = None \<longrightarrow>
        (\<exists>j. res = Inr j \<and> status j = Failed \<and> contentLocator j = None
           \<and> failureReason j = Some ''missing content locator''))
     \<and> (\<forall>j. res = Inr j \<and> evs \<noteq> [] \<and> status j = Complete \<longrightarrow> contentLocator j \<noteq> None)"
proof (cases "terminal (status job)")
  case True
  with assms show ?thesis
    by (auto simp: awaitCompletion_def)
next
  case False
  with assms have run: "poll_loop policy r job 0 (initialDelay policy) 0 = (res, evs)"
    by (simp add: awaitCompletion_def)
  have "\<exists>j. res = Inr j \<and> status j = Failed \<and> contentLocator j = None
      \<and> failureReason j = Some ''missing content locator''"
    if "Queried k (Answered reply) \<in> set evs" and "reply_status reply = Complete"
      and "reply_contentLocator reply = None" for k reply
    using poll_loop_missing_locator [OF run that] .
  moreover have "contentLocator j \<noteq> None" if "res = Inr j" and "status j = Complete" for j
    using poll_loop_Complete_has_locator [OF _ False that(2)] run that(1) by simp
  ultimately show ?thesis
    by blast
qed

text \<open>A run whose second answer is Complete with no locator: the job comes back Failed.\<close>

theorem missing_locator_is_failed_witness:
  "awaitCompletion (backoff_example 5 60000)
      (remote_of [answered InProgress None, answered Complete None]) submitted
     = (Inr (submitted\<lparr>status := Failed, failureReason := Some ''missing content locator''\<rparr>),
        [Queried 0 (answered InProgress None), Suspended 100, Queried 1 (answered Complete None)])"
proof -
  have run: "awaitCompletion (backoff_example 5 60000)
      (remote_of [answered InProgress None, answered Complete None]) submitted
     = (Inr (submitted\<lparr>status := Failed, failureReason := Some ''missing content locator''\<rparr>),
        [Queried 0 (answered InProgress None), Suspended 100, Queried 1 (answered Complete None)])"
    by (simp add: awaitCompletion_def poll_loop.simps backoff_example_def remote_of_def
          answered_def submitted_def after_query_def observe_def next_delay_def Let_def)
  from missing_locator_is_failed [OF run] run show ?thesis
    by simp
qed

text \<open>
  C5: a job that \<open>awaitCompletion\<close> returns has the status Complete or Failed; when the run
  fails instead, the status it carries is Pending or InProgress; and every status query
  of the run was issued while the job, as known so far, was neither Complete nor Failed.
\<close>

theorem poller_returns_terminal:
  assumes "awaitCompletion policy r job = (res, evs)"
  shows "
     (\<forall>j. res = Inr j \<longrightarrow> status j = Complete \<or> status j = Failed)
     \<and> (\<forall>err. res = Inl err \<longrightarrow> (\<exists>s. err = PollTimeout s \<and> (s = Pending \<or> s = InProgress)))
     \<and> queried_while_open job evs"
proof (cases "terminal (status job)")
  case True
  with assms show ?thesis
    by (auto simp: awaitCompletion_def terminal_iff)
next
  case False
  with assms have run: "poll_loop policy r job 0 (initialDelay policy) 0 = (res, evs)"
    by (simp add: awaitCompletion_def)
  have "status j = Complete \<or> status j = Failed" if "res = Inr j" for j
    using poll_loop_returns_known [of policy r job 0 _ 0 j evs] run that
    by (simp add: terminal_iff)
  moreover have "\<exists>s. err = PollTimeout s \<and> (s = Pending \<or> s = InProgress)" if "res = Inl err" for err
    using poll_loop_timeout [of policy r job 0 _ 0 err evs] run that
    by (cases "status (known job evs)") auto
  moreover have "queried_while_open job evs"
    using poll_loop_queried_while_open [OF run False] .
  ultimately show ?thesis
    by blast
qed

text \<open>Two answers InProgress, then Complete with a locator: three queries, the job Complete.\<close>

theorem poller_returns_terminal_witness:
  "awaitCompletion (backoff_example 5 60000)
      (remote_of [answered InProgress None, answered InProgress None,
         answered Complete (Some ''L1'')]) submitted
     = (Inr (submitted\<lparr>status := Complete, contentLocator := Some ''L1''\<rparr>),
        [Queried 0 (answered InProgress None), Suspended 100,
         Queried 1 (answered InProgress None), Suspended 200,
         Queried 2 (answered Complete (Some ''L1''))])
   \<and> queried_while_open submitted
        [Queried 0 (answered InProgress None), Suspended 100,
         Queried 1 (answered InProgress None), Suspended 200,
         Queried 2 (answered Complete (Some ''L1''))]"
proof -
  have run: "awaitCompletion (backoff_example 5 60000)
      (remote_of [answered InProgress None, answered InProgress None,
         answered Complete (Some ''L1'')]) submitted
     = (Inr (submitted\<lparr>status := Complete, contentLocator := Some ''L1''\<rparr>),
        [Queried 0 (answered InProgress None), Suspended 100,
         Queried 1 (answered InProgress None), Suspended 200,
         Queried 2 (answered Complete (Some ''L1''))])"
    by (simp add: awaitCompletion_def poll_loop.simps backoff_example_def remote_of_def
          answered_def submitted_def after_query_def observe_def next_delay_def Let_def)
  from poller_returns_terminal [OF run] run show ?thesis
    by simp
qed




text \<open>A query that fails does not end the run: the next attempt finds the job Complete.\<close>

lemma failed_query_then_complete:
  "awaitCompletion (backoff_example 3 60000)
      (remote_of [QueryFailed, answered Complete (Some ''L1'')]) submitted
     = (Inr (submitted\<lparr>status := Complete, contentLocator := Some ''L1''\<rparr>),
        [Queried 0 QueryFailed, Suspended 100, Queried 1 (answered Complete (Some ''L1''))])"
  by (simp add: awaitCompletion_def poll_loop.simps backoff_example_def remote_of_def
        answered_def submitted_def after_query_def observe_def next_delay_def Let_def)




end
